theory Spec2Isabelle
  imports Complex_Main "HOL-Library.Word" "HOL-Library.Sublist"
begin

section \<open>JavaScript strings\<close>

text \<open>
  A JavaScript string is a sequence of UTF-16 code units. Source literals are ASCII and
  are written \<open>lit ''...''\<close>.
\<close>

type_synonym jschar = "16 word"
type_synonym jsstring = "jschar list"

definition lit :: "string \<Rightarrow> jsstring" where
  "lit s = map (\<lambda>c. of_nat (of_char c)) s"

text \<open>The line feed, the separator of \<^verbatim>\<open>rawText.split("\n")\<close>.\<close>

definition LF :: jschar where
  "LF = 0x0A"

text \<open>
  \<^verbatim>\<open>String.prototype.trim\<close> strips the code points of WhiteSpace and LineTerminator:
  TAB, VT, FF, SP, NBSP, ZWNBSP, the category Zs (U+1680, U+2000 to U+200A, U+202F,
  U+205F, U+3000), and LF, CR, LS, PS. All of them are single code units.
\<close>

definition isWhiteSpace :: "jschar \<Rightarrow> bool" where
  "isWhiteSpace c \<longleftrightarrow>
     c \<in> {0x09, 0x0A, 0x0B, 0x0C, 0x0D, 0x20, 0xA0, 0x1680, 0x2028, 0x2029, 0x202F,
          0x205F, 0x3000, 0xFEFF}
     \<or> (0x2000 \<le> c \<and> c \<le> 0x200A)"

definition trim :: "jsstring \<Rightarrow> jsstring" where
  "trim s = rev (dropWhile isWhiteSpace (rev (dropWhile isWhiteSpace s)))"

text \<open>
  \<^verbatim>\<open>s.split(sep)\<close> for a separator of one code unit: the pieces between the occurrences
  of the separator, so that the empty string gives one empty piece.
\<close>

fun split :: "jschar \<Rightarrow> jsstring \<Rightarrow> jsstring list" where
  "split sep [] = [[]]"
| "split sep (c # cs) =
     (if c = sep then [] # split sep cs
      else (c # hd (split sep cs)) # tl (split sep cs))"

text \<open>The inverse direction, \<^verbatim>\<open>pieces.join(sep)\<close>, used to state what \<open>split\<close> returns.\<close>

fun join :: "jschar \<Rightarrow> jsstring list \<Rightarrow> jsstring" where
  "join sep [] = []"
| "join sep [l] = l"
| "join sep (l # l' # ls) = l @ sep # join sep (l' # ls)"

text \<open>
  Decimal digits of a non-negative integer: what \<^verbatim>\<open>String(n)\<close> writes for a safe integer,
  such as an array index or a status code.
\<close>

fun digits :: "nat \<Rightarrow> jsstring" where
  "digits n = (if n < 10 then [of_nat (48 + n)] else digits (n div 10) @ [of_nat (48 + n mod 10)])"

declare digits.simps [simp del]

section \<open>Request adapter\<close>

datatype json = JString jsstring | JArray "json list" | JObject "(jsstring \<times> json) list"

record request =
  url :: jsstring
  http_method :: jsstring
  headers :: "(jsstring \<times> jsstring) list"
  body :: json

text \<open>
  The body is \<^verbatim>\<open>JSON.stringify({ messages })\<close>; it is kept as the JSON value that the
  text on the wire denotes.
\<close>

definition payload :: "jsstring list \<Rightarrow> json" where
  "payload messages = JObject [(lit ''messages'', JArray (map JString messages))]"

definition request_part000 :: "jsstring list \<Rightarrow> request" where
  "request_part000 messages =
     \<lparr>url = lit ''https://empathyengine-vivekvardhan592.hf.space/analyze-chat'',
      http_method = lit ''POST'',
      headers = [(lit ''Content-Type'', lit ''application/json'')],
      body = payload messages\<rparr>"

definition request_script :: "jsstring list \<Rightarrow> request" where
  "request_script messages =
     \<lparr>url = lit ''http://127.0.0.1:8000/analyze-chat'',
      http_method = lit ''POST'',
      headers = [(lit ''Content-Type'', lit ''application/json'')],
      body = payload messages\<rparr>"

text \<open>
  \<^verbatim>\<open>rawText.split("\n").filter(m => m.trim() !== "")\<close>, the same line in both variants of
  the click handler.
\<close>

definition messages_of :: "jsstring \<Rightarrow> jsstring list" where
  "messages_of rawText = filter (\<lambda>m. trim m \<noteq> lit '''') (split LF rawText)"

text \<open>The specification's wording: a blank line is one made of white space only.\<close>

definition blank_line :: "jsstring \<Rightarrow> bool" where
  "blank_line l = list_all isWhiteSpace l"

section \<open>Analysis result and the answer of the network\<close>

text \<open>
  The response body: \<^verbatim>\<open>emotion_distribution\<close> is an object, kept as the list of its
  own properties in the order \<^verbatim>\<open>Object.keys\<close> enumerates them; \<^verbatim>\<open>score\<close> is a JSON
  number that the page only passes on. The handler does not check the shape of the parsed
  body; the model covers the bodies that have the three fields.
\<close>

record timeline_entry =
  item_text :: jsstring
  item_emotion :: jsstring
  item_score :: real

record analysis_result =
  emotional_trend :: jsstring
  emotion_distribution :: "(jsstring \<times> nat) list"
  timeline :: "timeline_entry list"

datatype js_error = TypeError jsstring | SyntaxError jsstring | Error jsstring

fun message :: "js_error \<Rightarrow> jsstring" where
  "message (TypeError m) = m"
| "message (SyntaxError m) = m"
| "message (Error m) = m"

text \<open>
  A response carries its status and what \<^verbatim>\<open>response.json()\<close> settles to: the parsed
  body, or the error of a body that is not JSON. \<^verbatim>\<open>fetch\<close> itself either rejects or
  resolves to a response, whatever the status.
\<close>

record response =
  status :: nat
  json_body :: "js_error + analysis_result"

datatype fetch_outcome = Rejected js_error | Resolved response

definition ok :: "response \<Rightarrow> bool" where
  "ok r \<longleftrightarrow> 200 \<le> status r \<and> status r \<le> 299"

text \<open>A network that settles every request the same way.\<close>

definition always :: "fetch_outcome \<Rightarrow> request \<Rightarrow> fetch_outcome" where
  "always out req = out"

definition analyzeChat_part000 ::
  "(request \<Rightarrow> fetch_outcome) \<Rightarrow> jsstring list \<Rightarrow> js_error + analysis_result" where
  "analyzeChat_part000 fetch messages =
     (case fetch (request_part000 messages) of
        Rejected e \<Rightarrow> Inl e
      | Resolved r \<Rightarrow>
          if \<not> ok r then Inl (Error (lit ''Backend error: '' @ digits (status r)))
          else json_body r)"

definition analyzeChat_script ::
  "(request \<Rightarrow> fetch_outcome) \<Rightarrow> jsstring list \<Rightarrow> js_error + analysis_result" where
  "analyzeChat_script fetch messages =
     (case fetch (request_script messages) of
        Rejected e \<Rightarrow> Inl e
      | Resolved r \<Rightarrow> json_body r)"

section \<open>Values read from objects\<close>

text \<open>
  \<^verbatim>\<open>obj[k]\<close> on an object written as a literal or parsed from JSON: the own property when
  there is one, otherwise what the object inherits from \<^verbatim>\<open>Object.prototype\<close>, otherwise
  \<^verbatim>\<open>undefined\<close>. An inherited member is a function (for \<^verbatim>\<open>__proto__\<close> the prototype
  object itself) and is kept by its property name.
\<close>

datatype 'v jsvalue = Undefined | Value 'v | Inherited jsstring

text \<open>
  The property names of \<^verbatim>\<open>Object.prototype\<close> that ECMAScript defines, Annex B included;
  no other script of the page is taken to add to them.
\<close>

definition Object_prototype :: "jsstring list" where
  "Object_prototype =
     [lit ''constructor'', lit ''__defineGetter__'', lit ''__defineSetter__'',
      lit ''hasOwnProperty'', lit ''__lookupGetter__'', lit ''__lookupSetter__'',
      lit ''isPrototypeOf'', lit ''propertyIsEnumerable'', lit ''toString'', lit ''valueOf'',
      lit ''__proto__'', lit ''toLocaleString'']"

definition lookup :: "(jsstring \<times> 'v) list \<Rightarrow> jsstring \<Rightarrow> 'v jsvalue" where
  "lookup obj k =
     (case map_of obj k of
        Some v \<Rightarrow> Value v
      | None \<Rightarrow> if k \<in> set Object_prototype then Inherited k else Undefined)"

text \<open>
  \<^verbatim>\<open>emotionColors[e] || "#888"\<close> takes the fallback for the falsy values, \<^verbatim>\<open>undefined\<close>
  and the empty string; an inherited member is truthy and stays.
\<close>

definition or_fallback :: "jsstring jsvalue \<Rightarrow> jsstring jsvalue" where
  "or_fallback v =
     (case v of
        Undefined \<Rightarrow> Value (lit ''#888'')
      | Value c \<Rightarrow> if c = lit '''' then Value (lit ''#888'') else Value c
      | Inherited k \<Rightarrow> Inherited k)"

definition Object_keys :: "(jsstring \<times> 'v) list \<Rightarrow> jsstring list" where
  "Object_keys obj = map fst obj"

definition Object_values :: "(jsstring \<times> 'v) list \<Rightarrow> 'v list" where
  "Object_values obj = map snd obj"

text \<open>
  What the engine decides: the text of a number beyond the safe integers (from \<open>2 ^ 53\<close>
  on the shortest digits that read back as the same double are printed, and exponent
  notation from \<open>10 ^ 21\<close> on), and the text of an inherited member in a template literal
  (the source text of a native function). Both are parameters of the renderer.
\<close>

record runtime =
  number_text :: "nat \<Rightarrow> jsstring"
  member_text :: "jsstring \<Rightarrow> jsstring"

text \<open>
  \<^verbatim>\<open>String(n)\<close> for a count: the decimal digits up to \<^verbatim>\<open>Number.MAX_SAFE_INTEGER\<close>.
\<close>

definition Number_toString :: "runtime \<Rightarrow> nat \<Rightarrow> jsstring" where
  "Number_toString rt n = (if n \<le> 9007199254740991 then digits n else number_text rt n)"

text \<open>A value in a template literal, \<^verbatim>\<open>${v}\<close>, given the text of a plain value.\<close>

definition template_text :: "runtime \<Rightarrow> ('v \<Rightarrow> jsstring) \<Rightarrow> 'v jsvalue \<Rightarrow> jsstring" where
  "template_text rt plain v =
     (case v of
        Undefined \<Rightarrow> lit ''undefined''
      | Value x \<Rightarrow> plain x
      | Inherited k \<Rightarrow> member_text rt k)"

section \<open>The page\<close>

text \<open>
  A tag and a breakdown item as the handler builds them; the two style fields hold the
  value the handler assigns.
\<close>

record tag =
  tag_className :: jsstring
  tag_borderColor :: "jsstring jsvalue"
  tag_color :: "jsstring jsvalue"
  tag_textContent :: jsstring

record msgItem =
  div_className :: jsstring
  div_innerHTML :: jsstring

text \<open>The chart configurations, field by field as the handler passes them to \<^verbatim>\<open>new Chart\<close>.\<close>

record line_dataset =
  ld_label :: jsstring
  ld_data :: "real list"
  ld_borderColor :: jsstring
  ld_pointBackgroundColor :: "jsstring jsvalue list"
  ld_borderWidth :: nat
  ld_tension :: real

record line_chart =
  lc_type :: jsstring
  lc_labels :: "jsstring list"
  lc_datasets :: "line_dataset list"
  lc_responsive :: bool
  lc_maintainAspectRatio :: bool
  lc_y_min :: nat
  lc_y_max :: nat

record pie_dataset =
  pd_data :: "nat list"
  pd_backgroundColor :: "jsstring jsvalue list"

record pie_chart =
  pc_type :: jsstring
  pc_labels :: "jsstring list"
  pc_datasets :: "pie_dataset list"
  pc_responsive :: bool

record bar_dataset =
  bd_label :: jsstring
  bd_data :: "nat list"
  bd_backgroundColor :: "jsstring jsvalue list"

record bar_chart =
  bc_type :: jsstring
  bc_labels :: "jsstring list"
  bc_datasets :: "bar_dataset list"
  bc_responsive :: bool
  bc_maintainAspectRatio :: bool
  bc_y_beginAtZero :: bool

text \<open>
  The state of the document: the input box, the elements that carry the class
  \<^verbatim>\<open>hidden\<close>, the children of the tag and breakdown containers, the markup of the trend
  box, and what each canvas shows (\<open>None\<close> for a cleared canvas, \<open>Some cfg\<close> for the chart
  last constructed on it).
\<close>

record page =
  inputBox :: jsstring
  hidden :: "jsstring set"
  tags :: "tag list"
  breakdown :: "msgItem list"
  trendBox :: jsstring
  timelineChart :: "line_chart option"
  pieChart :: "pie_chart option"
  barChart :: "bar_chart option"

definition showSections :: "page \<Rightarrow> page" where
  "showSections p = p\<lparr>hidden := {}\<rparr>"

text \<open>
  The reset. Both variants empty the three containers; only \<^verbatim>\<open>part_000\<close> goes on with
  \<^verbatim>\<open>clearRect\<close> on the three canvases.
\<close>

definition reset_part000 :: "page \<Rightarrow> page" where
  "reset_part000 p =
     p\<lparr>tags := [], breakdown := [], trendBox := lit '''',
       timelineChart := None, pieChart := None, barChart := None\<rparr>"

definition reset_script :: "page \<Rightarrow> page" where
  "reset_script p = p\<lparr>tags := [], breakdown := [], trendBox := lit ''''\<rparr>"

section \<open>Emotion colours\<close>

definition emotionColors_script :: "(jsstring \<times> jsstring) list" where
  "emotionColors_script =
     [(lit ''admiration'', lit ''#6A5ACD''), (lit ''amusement'', lit ''#FFB347''),
      (lit ''anger'', lit ''#FF4500''), (lit ''annoyance'', lit ''#FF6347''),
      (lit ''approval'', lit ''#4B0082''), (lit ''caring'', lit ''#DB7093''),
      (lit ''confusion'', lit ''#8A2BE2''), (lit ''curiosity'', lit ''#20B2AA''),
      (lit ''desire'', lit ''#FF69B4''), (lit ''disappointment'', lit ''#708090''),
      (lit ''disapproval'', lit ''#A52A2A''), (lit ''disgust'', lit ''#556B2F''),
      (lit ''embarrassment'', lit ''#CD5C5C''), (lit ''excitement'', lit ''#FFA500''),
      (lit ''fear'', lit ''#8B0000''), (lit ''gratitude'', lit ''#32CD32''),
      (lit ''grief'', lit ''#2F4F4F''), (lit ''joy'', lit ''#FFD700''),
      (lit ''love'', lit ''#FF1493''), (lit ''nervousness'', lit ''#E9967A''),
      (lit ''optimism'', lit ''#00FA9A''), (lit ''pride'', lit ''#4682B4''),
      (lit ''realization'', lit ''#7B68EE''), (lit ''relief'', lit ''#87CEEB''),
      (lit ''remorse'', lit ''#8B4513''), (lit ''sadness'', lit ''#1E90FF''),
      (lit ''surprise'', lit ''#00CED1''), (lit ''neutral'', lit ''#604b61ff'')]"

definition emotionColors_part000 :: "(jsstring \<times> jsstring) list" where
  "emotionColors_part000 = emotionColors_script @ [(lit ''uncertain'', lit ''#999999'')]"

section \<open>Result renderer\<close>

definition trend_step :: "analysis_result \<Rightarrow> page \<Rightarrow> page" where
  "trend_step result p = p\<lparr>trendBox := emotional_trend result\<rparr>"

definition make_tag ::
  "runtime \<Rightarrow> (jsstring \<times> jsstring) list \<Rightarrow> (jsstring \<times> nat) list \<Rightarrow> jsstring \<Rightarrow> tag" where
  "make_tag rt emotionColors distribution emotion =
     (let color = or_fallback (lookup emotionColors emotion) in
      \<lparr>tag_className = lit ''tag'',
       tag_borderColor = color,
       tag_color = color,
       tag_textContent =
         emotion @ lit '' (''
           @ template_text rt (Number_toString rt) (lookup distribution emotion) @ lit '')''\<rparr>)"

definition tags_step ::
  "runtime \<Rightarrow> (jsstring \<times> jsstring) list \<Rightarrow> analysis_result \<Rightarrow> page \<Rightarrow> page" where
  "tags_step rt emotionColors result p =
     (let distribution = emotion_distribution result in
      fold (\<lambda>emotion q. q\<lparr>tags := tags q @ [make_tag rt emotionColors distribution emotion]\<rparr>)
        (Object_keys distribution) p)"

text \<open>
  The index of an array element is far below the safe integers, so \<^verbatim>\<open>${index + 1}\<close> is
  its decimal digits.
\<close>

definition make_item_part000 ::
  "runtime \<Rightarrow> (jsstring \<times> jsstring) list \<Rightarrow> nat \<Rightarrow> timeline_entry \<Rightarrow> msgItem" where
  \<open>make_item_part000 rt emotionColors index item =
     (let color = or_fallback (lookup emotionColors (item_emotion item)) in
      \<lparr>div_className = lit ''msgItem'',
       div_innerHTML =
         LF # lit ''      <b>'' @ digits (index + 1) @ lit ''. "'' @ item_text item
           @ lit ''"</b><br>''
         @ LF # lit ''      Emotion: <span class="emotionLabel" style="background:''
           @ template_text rt (\<lambda>c. c) color
           @ lit ''">'' @ item_emotion item @ lit ''</span>''
         @ LF # lit ''    ''\<rparr>)\<close>

definition make_item_script ::
  "runtime \<Rightarrow> (jsstring \<times> jsstring) list \<Rightarrow> nat \<Rightarrow> timeline_entry \<Rightarrow> msgItem" where
  \<open>make_item_script rt emotionColors index item =
     (let color = or_fallback (lookup emotionColors (item_emotion item)) in
      \<lparr>div_className = lit ''msgItem'',
       div_innerHTML =
         LF # lit ''      <b>'' @ digits (index + 1) @ lit ''. "'' @ item_text item
           @ lit ''"</b><br>''
         @ LF # lit ''      Emotion: ''
         @ LF # lit ''      <span class="emotionLabel" style="background:''
           @ template_text rt (\<lambda>c. c) color
           @ lit ''">'' @ item_emotion item @ lit ''</span>''
         @ LF # lit ''    ''\<rparr>)\<close>

text \<open>\<^verbatim>\<open>result.timeline.forEach((item, index) => ...)\<close>: the entries with their indices from 0.\<close>

definition breakdown_step ::
  "(nat \<Rightarrow> timeline_entry \<Rightarrow> msgItem) \<Rightarrow> analysis_result \<Rightarrow> page \<Rightarrow> page" where
  "breakdown_step make_item result p =
     fold (\<lambda>(index, item) q. q\<lparr>breakdown := breakdown q @ [make_item index item]\<rparr>)
       (enumerate 0 (timeline result)) p"

definition line_config :: "(jsstring \<times> jsstring) list \<Rightarrow> analysis_result \<Rightarrow> line_chart" where
  "line_config emotionColors result =
     \<lparr>lc_type = lit ''line'',
      lc_labels =
        map (\<lambda>(i, _). lit ''Message '' @ digits (i + 1)) (enumerate 0 (timeline result)),
      lc_datasets =
        [\<lparr>ld_label = lit ''Intensity'',
          ld_data = map (\<lambda>t. item_score t) (timeline result),
          ld_borderColor = lit ''#38bdf8'',
          ld_pointBackgroundColor =
            map (\<lambda>t. lookup emotionColors (item_emotion t)) (timeline result),
          ld_borderWidth = 3,
          ld_tension = 4 / 10\<rparr>],
      lc_responsive = True,
      lc_maintainAspectRatio = False,
      lc_y_min = 0,
      lc_y_max = 1\<rparr>"

definition pie_config :: "(jsstring \<times> jsstring) list \<Rightarrow> analysis_result \<Rightarrow> pie_chart" where
  "pie_config emotionColors result =
     (let distribution = emotion_distribution result in
      \<lparr>pc_type = lit ''pie'',
       pc_labels = Object_keys distribution,
       pc_datasets =
         [\<lparr>pd_data = Object_values distribution,
           pd_backgroundColor = map (\<lambda>e. lookup emotionColors e) (Object_keys distribution)\<rparr>],
       pc_responsive = True\<rparr>)"

definition bar_config :: "(jsstring \<times> jsstring) list \<Rightarrow> analysis_result \<Rightarrow> bar_chart" where
  "bar_config emotionColors result =
     (let distribution = emotion_distribution result in
      \<lparr>bc_type = lit ''bar'',
       bc_labels = Object_keys distribution,
       bc_datasets =
         [\<lparr>bd_label = lit ''Count'',
           bd_data = Object_values distribution,
           bd_backgroundColor = map (\<lambda>e. lookup emotionColors e) (Object_keys distribution)\<rparr>],
       bc_responsive = True,
       bc_maintainAspectRatio = False,
       bc_y_beginAtZero = True\<rparr>)"

definition charts_step :: "(jsstring \<times> jsstring) list \<Rightarrow> analysis_result \<Rightarrow> page \<Rightarrow> page" where
  "charts_step emotionColors result p =
     p\<lparr>timelineChart := Some (line_config emotionColors result),
       pieChart := Some (pie_config emotionColors result),
       barChart := Some (bar_config emotionColors result)\<rparr>"

text \<open>Everything the handler does once the result is there, in the order of the source.\<close>

definition render_part000 :: "runtime \<Rightarrow> analysis_result \<Rightarrow> page \<Rightarrow> page" where
  "render_part000 rt result p =
     charts_step emotionColors_part000 result
       (breakdown_step (make_item_part000 rt emotionColors_part000) result
         (tags_step rt emotionColors_part000 result
           (trend_step result (reset_part000 (showSections p)))))"

definition render_script :: "runtime \<Rightarrow> analysis_result \<Rightarrow> page \<Rightarrow> page" where
  "render_script rt result p =
     charts_step emotionColors_script result
       (breakdown_step (make_item_script rt emotionColors_script) result
         (tags_step rt emotionColors_script result
           (trend_step result (reset_script (showSections p)))))"

section \<open>The click handler\<close>

text \<open>
  What one click leaves behind: the page, the alerts shown, and the error the handler's
  promise rejects with when nothing catches it.
\<close>

record outcome =
  page_after :: page
  alerts :: "jsstring list"
  uncaught :: "js_error option"

definition click_part000 :: "runtime \<Rightarrow> (request \<Rightarrow> fetch_outcome) \<Rightarrow> page \<Rightarrow> outcome" where
  "click_part000 rt fetch p =
     (let rawText = inputBox p;
          messages = messages_of rawText
      in case analyzeChat_part000 fetch messages of
           Inl err \<Rightarrow>
             \<lparr>page_after = p,
              alerts = [lit ''Error connecting to backend: '' @ message err],
              uncaught = None\<rparr>
         | Inr result \<Rightarrow>
             \<lparr>page_after = render_part000 rt result p, alerts = [], uncaught = None\<rparr>)"

definition click_script :: "runtime \<Rightarrow> (request \<Rightarrow> fetch_outcome) \<Rightarrow> page \<Rightarrow> outcome" where
  "click_script rt fetch p =
     (let rawText = inputBox p;
          messages = messages_of rawText
      in case analyzeChat_script fetch messages of
           Inl err \<Rightarrow> \<lparr>page_after = p, alerts = [], uncaught = Some err\<rparr>
         | Inr result \<Rightarrow>
             \<lparr>page_after = render_script rt result p, alerts = [], uncaught = None\<rparr>)"

section \<open>The specification's tag, and fixtures\<close>

text \<open>
  The tag as the specification words it, for one entry of the distribution: the label, the
  count in parentheses, and the table's colour or the fallback.
\<close>

definition spec_tag :: "runtime \<Rightarrow> (jsstring \<times> jsstring) list \<Rightarrow> jsstring \<times> nat \<Rightarrow> tag" where
  "spec_tag rt table entry =
     (let color = (case map_of table (fst entry) of Some c \<Rightarrow> c | None \<Rightarrow> lit ''#888'') in
      \<lparr>tag_className = lit ''tag'',
       tag_borderColor = Value color,
       tag_color = Value color,
       tag_textContent = fst entry @ lit '' ('' @ Number_toString rt (snd entry) @ lit '')''\<rparr>)"

text \<open>
  An engine, a page before the first click, a response with one known and one unknown
  label, and a response whose one label is a name that every object inherits.
\<close>

definition example_runtime :: runtime where
  "example_runtime =
     \<lparr>number_text = (\<lambda>n. lit ''1e+21''),
      member_text = (\<lambda>k. lit ''function '' @ k @ lit ''() { [native code] }'')\<rparr>"

definition example_page :: page where
  "example_page =
     \<lparr>inputBox = lit ''I am happy'' @ LF # lit ''I am sad'',
      hidden = {lit ''results''},
      tags = [], breakdown = [], trendBox = lit '''',
      timelineChart = None, pieChart = None, barChart = None\<rparr>"

definition example_result :: analysis_result where
  "example_result =
     \<lparr>emotional_trend = lit ''improving'',
      emotion_distribution = [(lit ''joy'', 1), (lit ''happy'', 2)],
      timeline =
        [\<lparr>item_text = lit ''I am happy'', item_emotion = lit ''joy'', item_score = 9 / 10\<rparr>,
         \<lparr>item_text = lit ''<i>a&b</i>'', item_emotion = lit ''happy'', item_score = 3 / 10\<rparr>]\<rparr>"

definition inherited_result :: analysis_result where
  "inherited_result =
     \<lparr>emotional_trend = lit ''stable'',
      emotion_distribution = [(lit ''constructor'', 1)],
      timeline =
        [\<lparr>item_text = lit ''hi'', item_emotion = lit ''constructor'', item_score = 1 / 2\<rparr>]\<rparr>"

text \<open>
  Three answers of the network: a success status whose body is not JSON, a server error
  whose body happens to parse, and a request that never completes.
\<close>

definition unparsable :: response where
  "unparsable = \<lparr>status = 200, json_body = Inl (SyntaxError (lit ''Unexpected token <''))\<rparr>"

definition server_error :: response where
  "server_error = \<lparr>status = 500, json_body = Inr example_result\<rparr>"

definition unreachable :: fetch_outcome where
  "unreachable = Rejected (TypeError (lit ''Failed to fetch''))"

section \<open>Properties of the message list\<close>

lemma lit_Nil [simp]: "lit [] = []"
  by (simp add: lit_def)

lemma split_not_Nil [simp]: "split sep s \<noteq> []"
  by (induction s) auto

lemma join_Cons: "ls \<noteq> [] \<Longrightarrow> join sep (l # ls) = l @ sep # join sep ls"
  by (cases ls) auto

lemma join_split: "join sep (split sep s) = s"
proof (induction s)
  case Nil
  show ?case by simp
next
  case (Cons c cs)
  obtain l ls where sp: "split sep cs = l # ls"
    by (cases "split sep cs") auto
  show ?case
  proof (cases "c = sep")
    case True
    with Cons show ?thesis by (simp add: join_Cons)
  next
    case False
    from Cons sp have "join sep (l # ls) = cs" by simp
    then have "join sep ((c # l) # ls) = c # cs"
      by (cases ls) auto
    with False sp show ?thesis by simp
  qed
qed

lemma split_no_sep: "l \<in> set (split sep s) \<Longrightarrow> sep \<notin> set l"
proof (induction s arbitrary: l)
  case Nil
  then show ?case by simp
next
  case (Cons c cs)
  obtain k ks where sp: "split sep cs = k # ks"
    by (cases "split sep cs") auto
  show ?case
  proof (cases "c = sep")
    case True
    with Cons show ?thesis by auto
  next
    case False
    with Cons.prems sp have "l = c # k \<or> l \<in> set ks" by auto
    then show ?thesis
    proof
      assume "l = c # k"
      moreover have "sep \<notin> set k" using Cons.IH [of k] sp by simp
      ultimately show ?thesis using False by auto
    next
      assume "l \<in> set ks"
      then show ?thesis using Cons.IH [of l] sp by simp
    qed
  qed
qed

lemma dropWhile_all: "dropWhile P xs = [] \<longleftrightarrow> list_all P xs"
  by (induction xs) auto

lemma trim_empty_iff: "trim m = [] \<longleftrightarrow> blank_line m"
proof -
  have "trim m = [] \<longleftrightarrow> dropWhile isWhiteSpace (rev (dropWhile isWhiteSpace m)) = []"
    by (simp add: trim_def)
  also have "\<dots> \<longleftrightarrow> list_all isWhiteSpace (rev (dropWhile isWhiteSpace m))"
    by (rule dropWhile_all)
  also have "\<dots> \<longleftrightarrow> list_all isWhiteSpace (dropWhile isWhiteSpace m)"
    by (simp add: list_all_iff)
  also have "\<dots> \<longleftrightarrow> list_all isWhiteSpace m"
    by (induction m) auto
  finally show ?thesis by (simp add: blank_line_def)
qed

text \<open>
  C1. The message list is the input split on the line feed with the blank lines removed,
  in the order of the input: the pieces joined by line feeds give the input back, no piece
  contains a line feed, and the messages are the pieces that are not white space only.
  For every input the body of the request carries exactly this list as \<open>messages\<close>, in
  both variants, and the request with that body is the one request whose answer the click
  handler depends on. For the empty input the list is empty and the payload's \<open>messages\<close>
  is the empty array.
\<close>

theorem messages_split_filter_blank:
  "messages_of rawText = filter (\<lambda>l. \<not> blank_line l) (split LF rawText)
   \<and> join LF (split LF rawText) = rawText
   \<and> (\<forall>l \<in> set (split LF rawText). LF \<notin> set l)
   \<and> body (request_part000 (messages_of rawText))
       = JObject [(lit ''messages'',
           JArray (map JString (filter (\<lambda>l. \<not> blank_line l) (split LF rawText))))]
   \<and> body (request_script (messages_of rawText))
       = JObject [(lit ''messages'',
           JArray (map JString (filter (\<lambda>l. \<not> blank_line l) (split LF rawText))))]
   \<and> click_part000 rt fetch p
       = click_part000 rt (always (fetch (request_part000 (messages_of (inputBox p))))) p
   \<and> click_script rt fetch p
       = click_script rt (always (fetch (request_script (messages_of (inputBox p))))) p
   \<and> messages_of (lit '''') = []
   \<and> body (request_part000 (messages_of (lit ''''))) = JObject [(lit ''messages'', JArray [])]
   \<and> body (request_script (messages_of (lit ''''))) = JObject [(lit ''messages'', JArray [])]"
proof -
  have e: "messages_of (lit '''') = []"
    by (simp add: messages_of_def trim_def)
  have f: "messages_of rawText = filter (\<lambda>l. \<not> blank_line l) (split LF rawText)"
    by (simp add: messages_of_def trim_empty_iff)
  have n: "\<forall>l \<in> set (split LF rawText). LF \<notin> set l"
    by (simp add: split_no_sep)
  have b: "body (request_part000 ms) = JObject [(lit ''messages'', JArray (map JString ms))]"
    "body (request_script ms) = JObject [(lit ''messages'', JArray (map JString ms))]" for ms
    by (simp_all add: request_part000_def request_script_def payload_def)
  have c: "click_part000 rt fetch p
       = click_part000 rt (always (fetch (request_part000 (messages_of (inputBox p))))) p"
    "click_script rt fetch p
       = click_script rt (always (fetch (request_script (messages_of (inputBox p))))) p"
    by (simp_all add: click_part000_def click_script_def analyzeChat_part000_def
        analyzeChat_script_def always_def Let_def)
  have j: "join LF (split LF rawText) = rawText"
    by (rule join_split)
  show ?thesis
    unfolding b e
    using f n c j by simp
qed

theorem messages_split_filter_blank_witness:
  "messages_of (lit ''ab'' @ LF # lit '' '' @ LF # lit ''c'') = [lit ''ab'', lit ''c'']
   \<and> split LF (lit ''ab'' @ LF # lit '' '' @ LF # lit ''c'') = [lit ''ab'', lit '' '', lit ''c'']
   \<and> LF \<notin> set (lit ''ab'') \<and> LF \<notin> set (lit '' '') \<and> LF \<notin> set (lit ''c'')
   \<and> body (request_part000 (messages_of (lit ''ab'' @ LF # lit '' '' @ LF # lit ''c'')))
       = JObject [(lit ''messages'', JArray [JString (lit ''ab''), JString (lit ''c'')])]
   \<and> body (request_script (messages_of (lit ''ab'' @ LF # lit '' '' @ LF # lit ''c'')))
       = JObject [(lit ''messages'', JArray [JString (lit ''ab''), JString (lit ''c'')])]"
proof -
  have s: "split LF (lit ''ab'' @ LF # lit '' '' @ LF # lit ''c'') = [lit ''ab'', lit '' '', lit ''c'']"
    by (simp add: lit_def LF_def)
  have k: "filter (\<lambda>l. \<not> blank_line l) [lit ''ab'', lit '' '', lit ''c''] = [lit ''ab'', lit ''c'']"
    by (simp add: lit_def blank_line_def isWhiteSpace_def)
  have n: "LF \<notin> set (lit ''ab'')" "LF \<notin> set (lit '' '')" "LF \<notin> set (lit ''c'')"
    by (simp_all add: lit_def LF_def)
  note t = messages_split_filter_blank [of "lit ''ab'' @ LF # lit '' '' @ LF # lit ''c''"
      example_runtime "always unreachable" example_page, unfolded s k list.map]
  from t n s show ?thesis by blast
qed

lemma split_without_sep: "sep \<notin> set l \<Longrightarrow> split sep l = [l]"
  by (induction l) auto

lemma messages_are_pieces: "set (messages_of rawText) \<subseteq> set (split LF rawText)"
  by (auto simp: messages_of_def)

text \<open>
  C9. A kept line reaches the request as typed: \<open>trim\<close> only decides whether the line is
  kept. A line without a line feed that is not blank is the one message, and the payload
  carries it unchanged; every message is one of the pieces of the raw text. The witness is
  the line \<^verbatim>\<open>"  hi  "\<close>, whose trimmed form \<^verbatim>\<open>"hi"\<close> is not what is sent.
\<close>

theorem kept_line_untrimmed:
  assumes "LF \<notin> set l" and "\<not> blank_line l"
  shows "messages_of l = [l]
    \<and> body (request_part000 (messages_of l)) = JObject [(lit ''messages'', JArray [JString l])]
    \<and> body (request_script (messages_of l)) = JObject [(lit ''messages'', JArray [JString l])]
    \<and> set (messages_of rawText) \<subseteq> set (split LF rawText)"
proof -
  from assms have m: "messages_of l = [l]"
    by (simp add: messages_of_def split_without_sep trim_empty_iff)
  show ?thesis
    by (simp add: m messages_are_pieces request_part000_def request_script_def payload_def)
qed

theorem kept_line_untrimmed_witness:
  "messages_of (lit ''  hi  '') = [lit ''  hi  '']
   \<and> trim (lit ''  hi  '') = lit ''hi''
   \<and> body (request_part000 (messages_of (lit ''  hi  '')))
       = JObject [(lit ''messages'', JArray [JString (lit ''  hi  '')])]"
proof -
  have a: "LF \<notin> set (lit ''  hi  '')"
    by (simp add: lit_def LF_def)
  have b: "\<not> blank_line (lit ''  hi  '')"
    by (simp add: lit_def blank_line_def isWhiteSpace_def)
  have c: "trim (lit ''  hi  '') = lit ''hi''"
    by (simp add: lit_def trim_def isWhiteSpace_def)
  from kept_line_untrimmed [OF a b, where rawText = "lit ''  hi  ''"] c show ?thesis by blast
qed

section \<open>The renderer in closed form\<close>

lemma fold_tags:
  "fold (\<lambda>e q. q\<lparr>tags := tags q @ [f e]\<rparr>) ks p = p\<lparr>tags := tags p @ map f ks\<rparr>"
  by (induction ks arbitrary: p) simp_all

lemma fold_breakdown:
  "fold (\<lambda>(i, t) q. q\<lparr>breakdown := breakdown q @ [f i t]\<rparr>) xs p
     = p\<lparr>breakdown := breakdown p @ map (\<lambda>(i, t). f i t) xs\<rparr>"
  by (induction xs arbitrary: p) (simp_all add: case_prod_beta)

lemma tags_step_eq:
  "tags_step rt ec r p =
     p\<lparr>tags := tags p
       @ map (make_tag rt ec (emotion_distribution r)) (Object_keys (emotion_distribution r))\<rparr>"
  by (simp add: tags_step_def Let_def fold_tags)

lemma breakdown_step_eq:
  "breakdown_step mk r p =
     p\<lparr>breakdown := breakdown p @ map (\<lambda>(i, t). mk i t) (enumerate 0 (timeline r))\<rparr>"
  by (simp add: breakdown_step_def fold_breakdown)

lemma render_part000_eq:
  "render_part000 rt r p =
     p\<lparr>hidden := {},
       tags := map (make_tag rt emotionColors_part000 (emotion_distribution r))
         (Object_keys (emotion_distribution r)),
       breakdown := map (\<lambda>(i, t). make_item_part000 rt emotionColors_part000 i t)
         (enumerate 0 (timeline r)),
       trendBox := emotional_trend r,
       timelineChart := Some (line_config emotionColors_part000 r),
       pieChart := Some (pie_config emotionColors_part000 r),
       barChart := Some (bar_config emotionColors_part000 r)\<rparr>"
  by (simp add: render_part000_def charts_step_def breakdown_step_eq tags_step_eq trend_step_def
      reset_part000_def showSections_def)

lemma render_script_eq:
  "render_script rt r p =
     p\<lparr>hidden := {},
       tags := map (make_tag rt emotionColors_script (emotion_distribution r))
         (Object_keys (emotion_distribution r)),
       breakdown := map (\<lambda>(i, t). make_item_script rt emotionColors_script i t)
         (enumerate 0 (timeline r)),
       trendBox := emotional_trend r,
       timelineChart := Some (line_config emotionColors_script r),
       pieChart := Some (pie_config emotionColors_script r),
       barChart := Some (bar_config emotionColors_script r)\<rparr>"
  by (simp add: render_script_def charts_step_def breakdown_step_eq tags_step_eq trend_step_def
      reset_script_def showSections_def)

text \<open>
  Rendering the same result a second time changes nothing, in either variant: tags and
  breakdown entries do not accumulate, and each canvas shows the chart of the result.
\<close>

lemma render_part000_idem:
  "render_part000 rt r (render_part000 rt r p) = render_part000 rt r p"
  by (simp add: render_part000_eq)

lemma render_script_idem:
  "render_script rt r (render_script rt r p) = render_script rt r p"
  by (simp add: render_script_eq)

section \<open>The tag summary\<close>

lemma colours_script_nonempty: "list_all (\<lambda>(k, v). v \<noteq> []) emotionColors_script"
  by (simp add: emotionColors_script_def lit_def)

lemma colours_part000_nonempty: "list_all (\<lambda>(k, v). v \<noteq> []) emotionColors_part000"
  using colours_script_nonempty by (simp add: emotionColors_part000_def lit_def)

lemma or_fallback_table:
  assumes "list_all (\<lambda>(k, v). v \<noteq> []) table" and "e \<notin> set Object_prototype"
  shows "or_fallback (lookup table e)
    = Value (case map_of table e of Some c \<Rightarrow> c | None \<Rightarrow> lit ''#888'')"
proof (cases "map_of table e")
  case None
  with assms(2) show ?thesis by (simp add: or_fallback_def lookup_def)
next
  case (Some c)
  then have "(e, c) \<in> set table" by (rule map_of_SomeD)
  with assms(1) have "c \<noteq> []" by (auto simp: list_all_iff)
  with Some show ?thesis by (simp add: or_fallback_def lookup_def)
qed

lemma make_tag_own_keys:
  assumes "distinct (map fst d)" and "list_all (\<lambda>(k, v). v \<noteq> []) table"
    and "set (map fst d) \<inter> set Object_prototype = {}"
  shows "map (make_tag rt table d) (map fst d) = map (spec_tag rt table) d"
proof -
  have "make_tag rt table d (fst kv) = spec_tag rt table kv" if "kv \<in> set d" for kv
  proof -
    obtain k v where kv: "kv = (k, v)" by (cases kv)
    with that have "(k, v) \<in> set d" by simp
    with assms(1) have "map_of d k = Some v" by simp
    with kv have m: "map_of d (fst kv) = Some (snd kv)" by simp
    from that assms(3) have "fst kv \<notin> set Object_prototype" by auto
    with m show ?thesis
      by (simp add: make_tag_def spec_tag_def Let_def template_text_def lookup_def
          or_fallback_table [OF assms(2), unfolded lookup_def])
  qed
  then show ?thesis by simp
qed

text \<open>
  For a distribution none of whose labels is a name inherited from \<^verbatim>\<open>Object.prototype\<close>,
  the tag container holds one tag per entry in key order, with the label, the count in
  parentheses, and the table's colour or the fallback.
\<close>

lemma tags_without_inherited_names:
  assumes "distinct (Object_keys (emotion_distribution result))"
    and "set (Object_keys (emotion_distribution result)) \<inter> set Object_prototype = {}"
  shows "tags (render_part000 rt result p)
         = map (spec_tag rt emotionColors_part000) (emotion_distribution result)
       \<and> tags (render_script rt result p)
         = map (spec_tag rt emotionColors_script) (emotion_distribution result)"
proof -
  from assms have d: "distinct (map fst (emotion_distribution result))"
    and i: "set (map fst (emotion_distribution result)) \<inter> set Object_prototype = {}"
    by (simp_all add: Object_keys_def)
  have "tags (render_part000 rt result p)
      = map (make_tag rt emotionColors_part000 (emotion_distribution result))
          (map fst (emotion_distribution result))"
    by (simp add: render_part000_eq Object_keys_def)
  moreover have "tags (render_script rt result p)
      = map (make_tag rt emotionColors_script (emotion_distribution result))
          (map fst (emotion_distribution result))"
    by (simp add: render_script_eq Object_keys_def)
  ultimately show ?thesis
    by (simp only: make_tag_own_keys [OF d colours_part000_nonempty i]
        make_tag_own_keys [OF d colours_script_nonempty i] simp_thms)
qed

lemma digits_small: "n < 10 \<Longrightarrow> digits n = [of_nat (48 + n)]"
  by (simp add: digits.simps)

text \<open>
  C6. The label \<^verbatim>\<open>constructor\<close> is a key of neither colour table, yet its tag does not
  get the fallback colour: \<^verbatim>\<open>emotionColors["constructor"]\<close> is the function every object
  inherits, which is truthy, so \<^verbatim>\<open>|| "#888"\<close> is not taken and the function is what is
  assigned to the border and text colour. Evaluated on a response whose one label is
  \<^verbatim>\<open>constructor\<close>, in both variants; the text of the tag is as the claim says.
\<close>

theorem inherited_label_tag_colour:
  "map_of emotionColors_part000 (lit ''constructor'') = None
   \<and> map_of emotionColors_script (lit ''constructor'') = None
   \<and> tags (render_part000 rt inherited_result example_page) =
       [\<lparr>tag_className = lit ''tag'',
         tag_borderColor = Inherited (lit ''constructor''),
         tag_color = Inherited (lit ''constructor''),
         tag_textContent = lit ''constructor (1)''\<rparr>]
   \<and> tags (render_script rt inherited_result example_page) =
       [\<lparr>tag_className = lit ''tag'',
         tag_borderColor = Inherited (lit ''constructor''),
         tag_color = Inherited (lit ''constructor''),
         tag_textContent = lit ''constructor (1)''\<rparr>]"
  by (simp add: render_part000_eq render_script_eq inherited_result_def Object_keys_def
      make_tag_def Let_def lookup_def or_fallback_def template_text_def Number_toString_def
      Object_prototype_def emotionColors_part000_def emotionColors_script_def digits_small
      lit_def)

section \<open>The charts\<close>

lemma map_index_only:
  "map (\<lambda>(i, _). f (Suc i)) ys = map f (map Suc (map fst ys))"
  by (induction ys) auto

lemma labels_enumerate:
  "map (\<lambda>(i, _). f (Suc i)) (enumerate 0 xs) = map f [1..<Suc (length xs)]"
proof -
  have "map Suc (map fst (enumerate 0 xs)) = [1..<Suc (length xs)]"
    by (simp only: map_fst_enumerate map_Suc_upt One_nat_def add_0)
  then show ?thesis
    by (simp only: map_index_only)
qed

text \<open>
  C7. The line chart has exactly one dataset, named \<^verbatim>\<open>Intensity\<close>; its data are the scores
  of the timeline in order, its labels are \<^verbatim>\<open>Message N\<close> for N from 1 to the length of the
  timeline, labels and data are as long as the timeline, and the y axis runs from 0 to 1.
  This is the chart both variants construct on the timeline canvas.
\<close>

theorem line_chart_intensity:
  "length (lc_datasets (line_config emotionColors result)) = 1
   \<and> ld_label (hd (lc_datasets (line_config emotionColors result))) = lit ''Intensity''
   \<and> ld_data (hd (lc_datasets (line_config emotionColors result))) = map item_score (timeline result)
   \<and> lc_labels (line_config emotionColors result)
       = map (\<lambda>n. lit ''Message '' @ digits n) [1..<Suc (length (timeline result))]
   \<and> length (lc_labels (line_config emotionColors result)) = length (timeline result)
   \<and> length (ld_data (hd (lc_datasets (line_config emotionColors result)))) = length (timeline result)
   \<and> lc_y_min (line_config emotionColors result) = 0
   \<and> lc_y_max (line_config emotionColors result) = 1
   \<and> timelineChart (render_part000 rt result p) = Some (line_config emotionColors_part000 result)
   \<and> timelineChart (render_script rt result p) = Some (line_config emotionColors_script result)"
proof -
  have l: "lc_labels (line_config emotionColors result)
       = map (\<lambda>n. lit ''Message '' @ digits n) [1..<Suc (length (timeline result))]"
    using labels_enumerate [of "\<lambda>n. lit ''Message '' @ digits n" "timeline result"]
    by (simp add: line_config_def del: upt_Suc)
  have n: "length (lc_labels (line_config emotionColors result)) = length (timeline result)"
    by (simp add: line_config_def)
  have r: "timelineChart (render_part000 rt result p) = Some (line_config emotionColors_part000 result)"
    "timelineChart (render_script rt result p) = Some (line_config emotionColors_script result)"
    by (simp_all add: render_part000_eq render_script_eq)
  have d: "lc_datasets (line_config emotionColors result) =
     [\<lparr>ld_label = lit ''Intensity'',
       ld_data = map item_score (timeline result),
       ld_borderColor = lit ''#38bdf8'',
       ld_pointBackgroundColor = map (\<lambda>t. lookup emotionColors (item_emotion t)) (timeline result),
       ld_borderWidth = 3,
       ld_tension = 4 / 10\<rparr>]"
    by (simp add: line_config_def)
  have y: "lc_y_min (line_config emotionColors result) = 0"
    "lc_y_max (line_config emotionColors result) = 1"
    by (simp_all add: line_config_def)
  show ?thesis
    unfolding d using l n r y by simp
qed

text \<open>
  C8. The pie chart and the bar chart are the same projections of the distribution: the
  labels are its keys in key order, the data the counts, the colours what
  \<^verbatim>\<open>emotionColors[e]\<close> gives for the keys in the same order (a table entry, an inherited
  member, or \<^verbatim>\<open>undefined\<close>); the bar chart's y axis begins at zero. These are the charts
  both variants construct on the pie and bar canvases. For the label \<^verbatim>\<open>constructor\<close> both
  charts receive the inherited member.
\<close>

theorem pie_bar_same_projection:
  "pc_labels (pie_config emotionColors result) = map fst (emotion_distribution result)
   \<and> bc_labels (bar_config emotionColors result) = map fst (emotion_distribution result)
   \<and> map pd_data (pc_datasets (pie_config emotionColors result)) = [map snd (emotion_distribution result)]
   \<and> map bd_data (bc_datasets (bar_config emotionColors result)) = [map snd (emotion_distribution result)]
   \<and> map pd_backgroundColor (pc_datasets (pie_config emotionColors result))
       = [map (\<lambda>(e, n). lookup emotionColors e) (emotion_distribution result)]
   \<and> map bd_backgroundColor (bc_datasets (bar_config emotionColors result))
       = [map (\<lambda>(e, n). lookup emotionColors e) (emotion_distribution result)]
   \<and> bc_y_beginAtZero (bar_config emotionColors result)
   \<and> pieChart (render_part000 rt result p) = Some (pie_config emotionColors_part000 result)
   \<and> barChart (render_part000 rt result p) = Some (bar_config emotionColors_part000 result)
   \<and> pieChart (render_script rt result p) = Some (pie_config emotionColors_script result)
   \<and> barChart (render_script rt result p) = Some (bar_config emotionColors_script result)
   \<and> map pd_backgroundColor (pc_datasets (pie_config emotionColors_part000 inherited_result))
       = [[Inherited (lit ''constructor'')]]
   \<and> map bd_backgroundColor (bc_datasets (bar_config emotionColors_part000 inherited_result))
       = [[Inherited (lit ''constructor'')]]"
proof -
  have g: "pc_labels (pie_config emotionColors result) = map fst (emotion_distribution result)
   \<and> bc_labels (bar_config emotionColors result) = map fst (emotion_distribution result)
   \<and> map pd_data (pc_datasets (pie_config emotionColors result)) = [map snd (emotion_distribution result)]
   \<and> map bd_data (bc_datasets (bar_config emotionColors result)) = [map snd (emotion_distribution result)]
   \<and> map pd_backgroundColor (pc_datasets (pie_config emotionColors result))
       = [map (\<lambda>(e, n). lookup emotionColors e) (emotion_distribution result)]
   \<and> map bd_backgroundColor (bc_datasets (bar_config emotionColors result))
       = [map (\<lambda>(e, n). lookup emotionColors e) (emotion_distribution result)]
   \<and> bc_y_beginAtZero (bar_config emotionColors result)"
    by (simp add: pie_config_def bar_config_def Let_def Object_keys_def Object_values_def
        case_prod_beta comp_def)
  have r: "pieChart (render_part000 rt result p) = Some (pie_config emotionColors_part000 result)"
    "barChart (render_part000 rt result p) = Some (bar_config emotionColors_part000 result)"
    "pieChart (render_script rt result p) = Some (pie_config emotionColors_script result)"
    "barChart (render_script rt result p) = Some (bar_config emotionColors_script result)"
    by (simp_all add: render_part000_eq render_script_eq)
  have c: "lookup emotionColors_part000 (lit ''constructor'') = Inherited (lit ''constructor'')"
    by (simp add: lookup_def emotionColors_part000_def emotionColors_script_def
        Object_prototype_def lit_def)
  have e: "map pd_backgroundColor (pc_datasets (pie_config emotionColors_part000 inherited_result))
       = [[Inherited (lit ''constructor'')]]"
    "map bd_backgroundColor (bc_datasets (bar_config emotionColors_part000 inherited_result))
       = [[Inherited (lit ''constructor'')]]"
    by (simp_all add: pie_config_def bar_config_def Let_def Object_keys_def inherited_result_def c)
  from g r e show ?thesis by blast
qed

section \<open>Errors of the request\<close>

text \<open>
  C4, as stated, fails on "throws if and only if the status is not a success or the fetch
  fails": with status 200 and a body that is not JSON, \<^verbatim>\<open>response.json()\<close> rejects and
  \<^verbatim>\<open>analyzeChat\<close> of \<^verbatim>\<open>part_000\<close> throws.
\<close>

theorem analyzeChat_throws_on_unparsable_body:
  "ok unparsable
   \<and> analyzeChat_part000 (always (Resolved unparsable)) [lit ''hi'']
       = Inl (SyntaxError (lit ''Unexpected token <''))"
  by (simp add: unparsable_def ok_def analyzeChat_part000_def always_def)

text \<open>
  C4, amended. \<^verbatim>\<open>analyzeChat\<close> of \<^verbatim>\<open>part_000\<close> throws exactly when the fetch rejects, the
  status is not a success, or the body does not parse as JSON; for a status that is not a
  success the error is \<^verbatim>\<open>Backend error: \<close> followed by the status code.
  \<^verbatim>\<open>analyzeChat\<close> of \<^verbatim>\<open>script.js\<close> returns what parsing the body gives, whatever the status.
\<close>

theorem analyzeChat_status_handling:
  "(isl (analyzeChat_part000 fetch messages) \<longleftrightarrow>
      (case fetch (request_part000 messages) of
         Rejected e \<Rightarrow> True
       | Resolved r \<Rightarrow> \<not> ok r \<or> isl (json_body r)))
   \<and> (fetch (request_part000 messages) = Resolved r \<and> \<not> ok r \<longrightarrow>
        analyzeChat_part000 fetch messages = Inl (Error (lit ''Backend error: '' @ digits (status r))))
   \<and> (fetch (request_script messages) = Resolved r \<longrightarrow>
        analyzeChat_script fetch messages = json_body r)"
  by (auto simp: analyzeChat_part000_def analyzeChat_script_def split: fetch_outcome.splits)

lemma digits_500: "digits 500 = lit ''500''"
  by (simp add: digits.simps lit_def)

theorem analyzeChat_status_handling_witness:
  "analyzeChat_part000 (always (Resolved server_error)) [lit ''hi'']
     = Inl (Error (lit ''Backend error: 500''))
   \<and> analyzeChat_script (always (Resolved server_error)) [lit ''hi''] = Inr example_result"
proof -
  have a: "always (Resolved server_error) (request_part000 [lit ''hi'']) = Resolved server_error"
    "always (Resolved server_error) (request_script [lit ''hi'']) = Resolved server_error"
    by (simp_all add: always_def)
  have b: "\<not> ok server_error" "status server_error = 500" "json_body server_error = Inr example_result"
    by (simp_all add: server_error_def ok_def)
  have c: "lit ''Backend error: '' @ digits 500 = lit ''Backend error: 500''"
    by (simp add: digits_500 lit_def)
  from analyzeChat_status_handling [of "always (Resolved server_error)" "[lit ''hi'']" server_error]
    a b c show ?thesis by simp
qed

text \<open>
  C3. When the request fails, the handler of \<^verbatim>\<open>script.js\<close> leaves the page as it was but
  shows no alert: the error leaves the handler uncaught. Evaluated at a request that never
  completes.
\<close>

theorem click_script_failure_unnoticed:
  "click_script rt (always unreachable) example_page
     = \<lparr>page_after = example_page, alerts = [],
        uncaught = Some (TypeError (lit ''Failed to fetch''))\<rparr>"
  by (simp add: click_script_def analyzeChat_script_def always_def unreachable_def Let_def)

text \<open>
  The handler of \<^verbatim>\<open>part_000\<close> catches the error, alerts and returns with the page
  untouched; the handler of \<^verbatim>\<open>script.js\<close> never alerts on an error.
\<close>

lemma click_part000_failure:
  "analyzeChat_part000 fetch (messages_of (inputBox p)) = Inl err \<Longrightarrow>
   click_part000 rt fetch p
     = \<lparr>page_after = p, alerts = [lit ''Error connecting to backend: '' @ message err],
        uncaught = None\<rparr>"
  by (simp add: click_part000_def Let_def)

lemma click_script_failure:
  "analyzeChat_script fetch (messages_of (inputBox p)) = Inl err \<Longrightarrow>
   click_script rt fetch p = \<lparr>page_after = p, alerts = [], uncaught = Some err\<rparr>"
  by (simp add: click_script_def Let_def)

section \<open>Reset and repeated rendering\<close>

text \<open>
  C5. The reset of \<^verbatim>\<open>script.js\<close> empties the three containers and leaves every canvas as
  it was, where the reset of \<^verbatim>\<open>part_000\<close> clears the canvases too. Evaluated on the page
  that a first render leaves.
\<close>

theorem reset_script_keeps_canvases:
  "timelineChart (reset_script (showSections p)) = timelineChart p
   \<and> pieChart (reset_script (showSections p)) = pieChart p
   \<and> barChart (reset_script (showSections p)) = barChart p
   \<and> timelineChart (reset_script (showSections (render_script rt example_result example_page)))
       = Some (line_config emotionColors_script example_result)
   \<and> timelineChart (reset_part000 (showSections (render_part000 rt example_result example_page))) = None"
  by (simp add: reset_script_def reset_part000_def showSections_def render_script_eq)

section \<open>Colours of unknown labels\<close>

text \<open>
  C2. For the label \<^verbatim>\<open>happy\<close>, which neither table has, the point colour of the line
  chart and the slice and bar colours are \<^verbatim>\<open>undefined\<close>, not the fallback colour that the
  tag of the same label gets. Evaluated on the example response, in both variants.
\<close>

theorem unknown_label_chart_colours:
  "map ld_pointBackgroundColor (lc_datasets (line_config emotionColors_part000 example_result))
     = [[Value (lit ''#FFD700''), Undefined]]
   \<and> map pd_backgroundColor (pc_datasets (pie_config emotionColors_part000 example_result))
     = [[Value (lit ''#FFD700''), Undefined]]
   \<and> map bd_backgroundColor (bc_datasets (bar_config emotionColors_part000 example_result))
     = [[Value (lit ''#FFD700''), Undefined]]
   \<and> map ld_pointBackgroundColor (lc_datasets (line_config emotionColors_script example_result))
     = [[Value (lit ''#FFD700''), Undefined]]
   \<and> map pd_backgroundColor (pc_datasets (pie_config emotionColors_script example_result))
     = [[Value (lit ''#FFD700''), Undefined]]
   \<and> map bd_backgroundColor (bc_datasets (bar_config emotionColors_script example_result))
     = [[Value (lit ''#FFD700''), Undefined]]
   \<and> map tag_color (tags (render_part000 rt example_result example_page))
     = [Value (lit ''#FFD700''), Value (lit ''#888'')]"
  by (simp add: line_config_def pie_config_def bar_config_def Let_def example_result_def
      lookup_def Object_keys_def Object_prototype_def emotionColors_part000_def
      emotionColors_script_def lit_def render_part000_eq make_tag_def or_fallback_def)

section \<open>Markup of the breakdown and the trend\<close>

lemma sublist_skip: "sublist xs ys \<Longrightarrow> sublist xs (zs @ ys)"
  by (metis append.assoc sublist_def)

lemma sublist_skip_Cons: "sublist xs ys \<Longrightarrow> sublist xs (z # ys)"
  using sublist_skip [of xs ys "[z]"] by simp

text \<open>
  C10. The markup of a breakdown item is the template with the index plus one, the text,
  the resolved colour and the label put in as they are: text and label occur in the markup
  unchanged, nothing is escaped, and the score has no influence. The resolved colour is
  \<^verbatim>\<open>emotionColors[item.emotion] || "#888"\<close> as the template literal prints it: the table's
  entry, the fallback, or for an inherited name the text of the inherited member. The
  trend box receives \<open>emotional_trend\<close> as its markup, unchanged. On the example response
  the second item's text \<^verbatim>\<open><i>a&b</i>\<close> reaches \<^verbatim>\<open>innerHTML\<close> with its angle brackets and
  ampersand.
\<close>

theorem breakdown_markup_unescaped:
  \<open>div_innerHTML (make_item_part000 rt emotionColors index item) =
       LF # lit ''      <b>'' @ digits (index + 1) @ lit ''. "'' @ item_text item
         @ lit ''"</b><br>''
       @ LF # lit ''      Emotion: <span class="emotionLabel" style="background:''
         @ template_text rt (\<lambda>c. c) (or_fallback (lookup emotionColors (item_emotion item)))
         @ lit ''">'' @ item_emotion item @ lit ''</span>''
       @ LF # lit ''    ''
   \<and> div_innerHTML (make_item_script rt emotionColors index item) =
       LF # lit ''      <b>'' @ digits (index + 1) @ lit ''. "'' @ item_text item
         @ lit ''"</b><br>''
       @ LF # lit ''      Emotion: ''
       @ LF # lit ''      <span class="emotionLabel" style="background:''
         @ template_text rt (\<lambda>c. c) (or_fallback (lookup emotionColors (item_emotion item)))
         @ lit ''">'' @ item_emotion item @ lit ''</span>''
       @ LF # lit ''    ''
   \<and> sublist (item_text item) (div_innerHTML (make_item_part000 rt emotionColors index item))
   \<and> sublist (item_emotion item) (div_innerHTML (make_item_part000 rt emotionColors index item))
   \<and> sublist (item_text item) (div_innerHTML (make_item_script rt emotionColors index item))
   \<and> sublist (item_emotion item) (div_innerHTML (make_item_script rt emotionColors index item))
   \<and> make_item_part000 rt emotionColors index (item\<lparr>item_score := s\<rparr>)
       = make_item_part000 rt emotionColors index item
   \<and> make_item_script rt emotionColors index (item\<lparr>item_score := s\<rparr>)
       = make_item_script rt emotionColors index item
   \<and> breakdown (render_part000 rt result p)
       = map (\<lambda>(i, t). make_item_part000 rt emotionColors_part000 i t)
           (enumerate 0 (timeline result))
   \<and> breakdown (render_script rt result p)
       = map (\<lambda>(i, t). make_item_script rt emotionColors_script i t)
           (enumerate 0 (timeline result))
   \<and> trendBox (render_part000 rt result p) = emotional_trend result
   \<and> trendBox (render_script rt result p) = emotional_trend result
   \<and> map div_innerHTML (breakdown (render_part000 rt example_result example_page)) =
       [LF # lit ''      <b>1. "I am happy"</b><br>''
        @ LF # lit ''      Emotion: <span class="emotionLabel" style="background:#FFD700">joy</span>''
        @ LF # lit ''    '',
        LF # lit ''      <b>2. "<i>a&b</i>"</b><br>''
        @ LF # lit ''      Emotion: <span class="emotionLabel" style="background:#888">happy</span>''
        @ LF # lit ''    '']
   \<and> map div_innerHTML (breakdown (render_part000 rt inherited_result example_page)) =
       [LF # lit ''      <b>1. "hi"</b><br>''
        @ LF # lit ''      Emotion: <span class="emotionLabel" style="background:''
        @ member_text rt (lit ''constructor'') @ lit ''">constructor</span>''
        @ LF # lit ''    '']\<close>
proof -
  have m1: "sublist (item_text item) (div_innerHTML (make_item_part000 rt emotionColors index item))"
    "sublist (item_emotion item) (div_innerHTML (make_item_part000 rt emotionColors index item))"
    by (simp_all add: make_item_part000_def Let_def sublist_skip sublist_skip_Cons)
  have m2: "sublist (item_text item) (div_innerHTML (make_item_script rt emotionColors index item))"
    "sublist (item_emotion item) (div_innerHTML (make_item_script rt emotionColors index item))"
    by (simp_all add: make_item_script_def Let_def sublist_skip sublist_skip_Cons)
  have s: "make_item_part000 rt emotionColors index (item\<lparr>item_score := s\<rparr>)
       = make_item_part000 rt emotionColors index item"
    "make_item_script rt emotionColors index (item\<lparr>item_score := s\<rparr>)
       = make_item_script rt emotionColors index item"
    by (simp_all add: make_item_part000_def make_item_script_def)
  have r: "breakdown (render_part000 rt result p)
       = map (\<lambda>(i, t). make_item_part000 rt emotionColors_part000 i t)
           (enumerate 0 (timeline result))"
    "breakdown (render_script rt result p)
       = map (\<lambda>(i, t). make_item_script rt emotionColors_script i t)
           (enumerate 0 (timeline result))"
    "trendBox (render_part000 rt result p) = emotional_trend result"
    "trendBox (render_script rt result p) = emotional_trend result"
    by (simp_all add: render_part000_eq render_script_eq)
  have e: \<open>map div_innerHTML (breakdown (render_part000 rt example_result example_page)) =
       [LF # lit ''      <b>1. "I am happy"</b><br>''
        @ LF # lit ''      Emotion: <span class="emotionLabel" style="background:#FFD700">joy</span>''
        @ LF # lit ''    '',
        LF # lit ''      <b>2. "<i>a&b</i>"</b><br>''
        @ LF # lit ''      Emotion: <span class="emotionLabel" style="background:#888">happy</span>''
        @ LF # lit ''    '']\<close>
    by (simp add: render_part000_eq example_result_def make_item_part000_def Let_def lookup_def
        or_fallback_def template_text_def Object_prototype_def emotionColors_part000_def
        emotionColors_script_def digits_small lit_def)
  have i: \<open>map div_innerHTML (breakdown (render_part000 rt inherited_result example_page)) =
       [LF # lit ''      <b>1. "hi"</b><br>''
        @ LF # lit ''      Emotion: <span class="emotionLabel" style="background:''
        @ member_text rt (lit ''constructor'') @ lit ''">constructor</span>''
        @ LF # lit ''    '']\<close>
    by (simp add: render_part000_eq inherited_result_def make_item_part000_def Let_def lookup_def
        or_fallback_def template_text_def Object_prototype_def emotionColors_part000_def
        emotionColors_script_def digits_small lit_def)
  have d: \<open>div_innerHTML (make_item_part000 rt emotionColors index item) =
       LF # lit ''      <b>'' @ digits (index + 1) @ lit ''. "'' @ item_text item
         @ lit ''"</b><br>''
       @ LF # lit ''      Emotion: <span class="emotionLabel" style="background:''
         @ template_text rt (\<lambda>c. c) (or_fallback (lookup emotionColors (item_emotion item)))
         @ lit ''">'' @ item_emotion item @ lit ''</span>''
       @ LF # lit ''    ''\<close>
    \<open>div_innerHTML (make_item_script rt emotionColors index item) =
       LF # lit ''      <b>'' @ digits (index + 1) @ lit ''. "'' @ item_text item
         @ lit ''"</b><br>''
       @ LF # lit ''      Emotion: ''
       @ LF # lit ''      <span class="emotionLabel" style="background:''
         @ template_text rt (\<lambda>c. c) (or_fallback (lookup emotionColors (item_emotion item)))
         @ lit ''">'' @ item_emotion item @ lit ''</span>''
       @ LF # lit ''    ''\<close>
    by (simp_all add: make_item_part000_def make_item_script_def Let_def)
  from m1 m2 s r e i d show ?thesis
    by (simp only: simp_thms)
qed

end
